theory Spec2Isabelle
  imports Complex_Main
begin

section \<open>Fallback risk scorer (processors/risk\_calculator.py)\<close>

text \<open>
  The scorer receives Python numbers. They are modelled as real numbers: comparisons are
  exact, and the product \<open>discount_rate * 1.1\<close> is the exact product with eleven tenths
  (the binary rounding of the interpreter is not modelled). The score itself is a Python
  integer.
\<close>

definition calculate_risk_score ::
  "real \<Rightarrow> real \<Rightarrow> real \<Rightarrow> real \<Rightarrow> real \<Rightarrow> real \<Rightarrow> real \<Rightarrow> int" where
  "calculate_risk_score npv irr payback_period debt_share debt_rate construction_years
       discount_rate =
     (let risk_score = 0;
          risk_score = (if npv < 0 then risk_score + 40
                        else if npv < 50 then risk_score + 20 else risk_score);
          risk_score = (if irr < discount_rate then risk_score + 30
                        else if irr < discount_rate * (11 / 10) then risk_score + 15
                        else risk_score);
          risk_score = (if payback_period > 15 then risk_score + 30
                        else if payback_period > 10 then risk_score + 20 else risk_score);
          risk_score = (if debt_share > 70 then risk_score + 35
                        else if debt_share > 50 then risk_score + 25 else risk_score);
          risk_score = (if debt_rate > 20 then risk_score + 30
                        else if debt_rate > 15 then risk_score + 20 else risk_score);
          risk_score = (if construction_years > 7 then risk_score + 25
                        else if construction_years > 5 then risk_score + 15
                        else risk_score);
          risk_score = (if discount_rate > 25 then risk_score + 20
                        else if discount_rate > 20 then risk_score + 10 else risk_score)
      in min 100 risk_score)"

text \<open>
  The four levels are the strings the source returns (the Russian words for low, medium,
  high and critical).
\<close>

datatype risk_level = Low | Medium | High | Critical

definition score_to_risk_level :: "int \<Rightarrow> risk_level" where
  "score_to_risk_level risk_score =
     (if risk_score \<le> 30 then Low
      else if risk_score \<le> 60 then Medium
      else if risk_score \<le> 85 then High
      else Critical)"

text \<open>
  The fixed texts of the fallback answer are Russian sentences; each is a constructor
  here. \<open>Reason_low\<close> .. \<open>Reason_critical\<close> are the four justifications, and the
  factors are, in the order of the source: negative NPV, IRR below the discount rate, high
  debt share, long payback, and the placeholder "a detailed analysis is required".
\<close>

datatype reason_text = Reason_low | Reason_medium | Reason_high | Reason_critical

datatype factor =
  Negative_npv | Irr_below_discount | High_debt_share | Long_payback | Detailed_analysis

datatype pyval =
  PLevel risk_level | PReason reason_text | PFactor factor | PInt int | PStr string
  | PNone | PList "pyval list"

text \<open>\<open>d.get(key, default)\<close> on a dictionary.\<close>

definition dict_get :: "('k \<rightharpoonup> 'v) \<Rightarrow> 'k \<Rightarrow> 'v \<Rightarrow> 'v" where
  "dict_get d k dflt = (case d k of None \<Rightarrow> dflt | Some v \<Rightarrow> v)"

definition fallback_reason :: "risk_level \<Rightarrow> reason_text" where
  "fallback_reason risk_level =
     (if risk_level = Low then Reason_low
      else if risk_level = Medium then Reason_medium
      else if risk_level = High then Reason_high
      else Reason_critical)"

definition fallback_factors :: "(string \<rightharpoonup> real) \<Rightarrow> factor list" where
  "fallback_factors project_data =
     (let critical_factors = [];
          critical_factors =
            (if dict_get project_data ''npv'' 0 < 0
             then critical_factors @ [Negative_npv] else critical_factors);
          critical_factors =
            (if dict_get project_data ''irr'' 0 < dict_get project_data ''discount_rate'' 0
             then critical_factors @ [Irr_below_discount] else critical_factors);
          critical_factors =
            (if dict_get project_data ''debt_share'' 0 > 50
             then critical_factors @ [High_debt_share] else critical_factors);
          critical_factors =
            (if dict_get project_data ''payback_period'' 0 > 10
             then critical_factors @ [Long_payback] else critical_factors)
      in critical_factors)"

definition calculate_risk_fallback :: "(string \<rightharpoonup> real) \<Rightarrow> (string \<rightharpoonup> pyval)" where
  "calculate_risk_fallback project_data =
     (let risk_score = calculate_risk_score
            (dict_get project_data ''npv'' 0)
            (dict_get project_data ''irr'' 0)
            (dict_get project_data ''payback_period'' 0)
            (dict_get project_data ''debt_share'' 0)
            (dict_get project_data ''debt_rate'' 0)
            (dict_get project_data ''construction_years'' 0)
            (dict_get project_data ''discount_rate'' 0);
          risk_level = score_to_risk_level risk_score;
          reason = fallback_reason risk_level;
          critical_factors = fallback_factors project_data
      in map_of
          [(''risk_level'', PLevel risk_level),
           (''reason'', PReason reason),
           (''critical_factors'',
              PList (map PFactor
                (if critical_factors \<noteq> [] then critical_factors else [Detailed_analysis]))),
           (''scenarios'', PList []),
           (''total_potential_losses'', PInt 0),
           (''risk_mitigation'', PList [])])"


section \<open>Spreadsheet reader (processors/excel\_reader.py)\<close>

subsection \<open>Cells, sheets and the interpreter's library\<close>

text \<open>
  A cell of a loaded sheet holds nothing, an integer, a float, a boolean, a string, or a
  date or time value (\<open>OtherV\<close>). Floats are real numbers here; the non-finite floats
  and integers beyond the range of a float are outside the model.
\<close>

datatype cell_value = NoneV | IntV int | FloatV real | BoolV bool | StrV string | OtherV

text \<open>
  The builtins of the interpreter that the reader calls on texts are parameters of the
  model: \<open>str.lower\<close>, \<open>str.upper\<close>, \<open>str.strip\<close>, \<open>str\<close> of a float or
  of a date, and \<open>float\<close> of a string (\<open>None\<close> when it raises ValueError).
\<close>

record pylib =
  str_lower :: "string \<Rightarrow> string"
  str_upper :: "string \<Rightarrow> string"
  str_strip :: "string \<Rightarrow> string"
  str_other :: "cell_value \<Rightarrow> string"
  str_float :: "string \<Rightarrow> real option"

text \<open>
  A sheet is its rows, each a list of cell values; rows and columns count from 1. A cell
  outside the stored rows is empty, as \<open>worksheet.cell\<close> creates it.
\<close>

type_synonym worksheet = "cell_value list list"

definition cell_at :: "worksheet \<Rightarrow> nat \<Rightarrow> nat \<Rightarrow> cell_value" where
  "cell_at ws r c =
     (if 1 \<le> r \<and> r \<le> length ws
      then (let cells = ws ! (r - 1)
            in if 1 \<le> c \<and> c \<le> length cells then cells ! (c - 1) else NoneV)
      else NoneV)"

text \<open>The truth value of a cell value, as \<open>if cell.value:\<close> tests it.\<close>

fun truthy :: "cell_value \<Rightarrow> bool" where
  "truthy NoneV = False"
| "truthy (IntV n) = (n \<noteq> 0)"
| "truthy (FloatV x) = (x \<noteq> 0)"
| "truthy (BoolV b) = b"
| "truthy (StrV s) = (s \<noteq> [])"
| "truthy OtherV = True"

definition digit_char :: "nat \<Rightarrow> char" where
  "digit_char d = ''0123456789'' ! (d mod 10)"

function show_nat :: "nat \<Rightarrow> string" where
  "show_nat n = (if n < 10 then [digit_char n] else show_nat (n div 10) @ [digit_char n])"
  by pat_completeness auto
termination
  by (relation "measure id") auto

definition show_int :: "int \<Rightarrow> string" where
  "show_int i = (if i < 0 then CHR ''-'' # show_nat (nat (- i)) else show_nat (nat i))"

text \<open>\<open>str(cell.value)\<close>.\<close>

fun py_str :: "pylib \<Rightarrow> cell_value \<Rightarrow> string" where
  "py_str L (StrV s) = s"
| "py_str L (IntV n) = show_int n"
| "py_str L (BoolV b) = (if b then ''True'' else ''False'')"
| "py_str L NoneV = ''None''"
| "py_str L v = str_other L v"

text \<open>\<open>float(cell.value)\<close>; \<open>None\<close> stands for ValueError or TypeError.\<close>

fun py_float :: "pylib \<Rightarrow> cell_value \<Rightarrow> real option" where
  "py_float L (IntV n) = Some (of_int n)"
| "py_float L (FloatV x) = Some x"
| "py_float L (BoolV b) = Some (if b then 1 else 0)"
| "py_float L (StrV s) = str_float L s"
| "py_float L NoneV = None"
| "py_float L OtherV = None"

text \<open>The substring test \<open>sub in s\<close>.\<close>

fun is_prefix :: "string \<Rightarrow> string \<Rightarrow> bool" where
  "is_prefix [] ys = True"
| "is_prefix (x # xs) [] = False"
| "is_prefix (x # xs) (y # ys) = (x = y \<and> is_prefix xs ys)"

fun contains :: "string \<Rightarrow> string \<Rightarrow> bool" where
  "contains sub [] = (sub = [])"
| "contains sub (y # ys) = (is_prefix sub (y # ys) \<or> contains sub ys)"

subsection \<open>find\_cell\_by\_text\<close>

fun find_in_row ::
  "pylib \<Rightarrow> string \<Rightarrow> bool \<Rightarrow> nat \<Rightarrow> nat \<Rightarrow> cell_value list \<Rightarrow> (nat \<times> nat) option" where
  "find_in_row L search_lower case_sensitive r c [] = None"
| "find_in_row L search_lower case_sensitive r c (v # vs) =
     (if truthy v \<and>
         contains search_lower
           (if \<not> case_sensitive then str_lower L (py_str L v) else py_str L v)
      then Some (r, c)
      else find_in_row L search_lower case_sensitive r (Suc c) vs)"

fun find_in_rows ::
  "pylib \<Rightarrow> string \<Rightarrow> bool \<Rightarrow> nat \<Rightarrow> worksheet \<Rightarrow> (nat \<times> nat) option" where
  "find_in_rows L search_lower case_sensitive r [] = None"
| "find_in_rows L search_lower case_sensitive r (cells # rest) =
     (case find_in_row L search_lower case_sensitive r 1 cells of
        Some pos \<Rightarrow> Some pos
      | None \<Rightarrow> find_in_rows L search_lower case_sensitive (Suc r) rest)"

definition find_cell_by_text ::
  "pylib \<Rightarrow> worksheet \<Rightarrow> string \<Rightarrow> bool \<Rightarrow> (nat \<times> nat) option" where
  "find_cell_by_text L worksheet search_text case_sensitive =
     (let search_lower = (if \<not> case_sensitive then str_lower L search_text else search_text)
      in find_in_rows L search_lower case_sensitive 1 worksheet)"

subsection \<open>Numbers embedded in text\<close>

definition is_digit :: "char \<Rightarrow> bool" where
  "is_digit c = (c \<in> set ''0123456789'')"

text \<open>\<open>s.replace(',', '.').replace('%', '')\<close>.\<close>

definition normalize_text :: "string \<Rightarrow> string" where
  "normalize_text s =
     filter (\<lambda>c. c \<noteq> CHR ''%'') (map (\<lambda>c. if c = CHR '','' then CHR ''.'' else c) s)"

text \<open>
  The text matched by \<open>\d+\.?\d*\<close> at the start of a string that begins with a digit:
  the digits, then a dot if one follows, then the digits after it.
\<close>

definition match_digits :: "string \<Rightarrow> string" where
  "match_digits s =
     (let ds = takeWhile is_digit s
      in case dropWhile is_digit s of
           [] \<Rightarrow> ds
         | c # rest \<Rightarrow> if c = CHR ''.'' then ds @ c # takeWhile is_digit rest else ds)"

text \<open>
  The first element of \<open>re.findall(pattern, s)\<close>, \<open>None\<close> when the list is empty. The
  pattern is \<open>-?\d+\.?\d*\<close> when \<open>signed\<close> and \<open>\d+\.?\d*\<close> otherwise: the
  leftmost match starts at the first digit, or at a minus sign right before it.
\<close>

fun first_number :: "bool \<Rightarrow> string \<Rightarrow> string option" where
  "first_number signed [] = None"
| "first_number signed (c # cs) =
     (if is_digit c then Some (match_digits (c # cs))
      else if signed \<and> c = CHR ''-'' \<and> (case cs of [] \<Rightarrow> False | d # _ \<Rightarrow> is_digit d)
      then Some (c # match_digits cs)
      else first_number signed cs)"

subsection \<open>extract\_value\_near\_cell\<close>

definition search_positions :: "nat \<Rightarrow> nat \<Rightarrow> (nat \<times> nat) list" where
  "search_positions row col =
     [(row, col + 1), (row, col + 2), (row, col + 3),
      (row + 1, col), (row + 1, col + 1), (row + 1, col + 2),
      (row + 2, col), (row + 2, col + 1)]"

text \<open>
  The body of the first loop for one position: \<open>Some\<close> is the value returned, \<open>None\<close>
  means the loop goes on. \<open>worksheet.cell\<close> raises for a row or column below 1, which
  the handler of the loop turns into \<open>continue\<close>.
\<close>

definition near_value :: "pylib \<Rightarrow> worksheet \<Rightarrow> nat \<times> nat \<Rightarrow> real option" where
  "near_value L worksheet pos =
     (case pos of (r, c) \<Rightarrow>
        if r < 1 \<or> c < 1 then None
        else (let v = cell_at worksheet r c
              in if v \<noteq> NoneV
                 then (case py_float L v of
                         Some val \<Rightarrow> Some val
                       | None \<Rightarrow>
                          (case v of
                             StrV s \<Rightarrow>
                               (case first_number True (normalize_text s) of
                                  Some m \<Rightarrow> str_float L m
                                | None \<Rightarrow> None)
                           | _ \<Rightarrow> None))
                 else None))"

fun near_loop :: "pylib \<Rightarrow> worksheet \<Rightarrow> (nat \<times> nat) list \<Rightarrow> real option" where
  "near_loop L worksheet [] = None"
| "near_loop L worksheet (pos # rest) =
     (case near_value L worksheet pos of
        Some val \<Rightarrow> Some val
      | None \<Rightarrow> near_loop L worksheet rest)"

text \<open>
  The body of the second loop for one cell: only \<open>float(value_cell.value)\<close> is tried,
  and its ValueError or TypeError is passed over.
\<close>

definition ray_value :: "pylib \<Rightarrow> worksheet \<Rightarrow> nat \<times> nat \<Rightarrow> real option" where
  "ray_value L worksheet pos =
     (case pos of (r, c) \<Rightarrow>
        if r < 1 \<or> c < 1 then None
        else (let v = cell_at worksheet r c
              in if v \<noteq> NoneV then py_float L v else None))"

fun ray_loop :: "pylib \<Rightarrow> worksheet \<Rightarrow> nat \<Rightarrow> nat \<Rightarrow> nat list \<Rightarrow> real option" where
  "ray_loop L worksheet row col [] = None"
| "ray_loop L worksheet row col (i # rest) =
     (case ray_value L worksheet (row, col + i) of
        Some val \<Rightarrow> Some val
      | None \<Rightarrow>
         (case ray_value L worksheet (row + i, col) of
            Some val \<Rightarrow> Some val
          | None \<Rightarrow> ray_loop L worksheet row col rest))"

definition extract_value_near_cell :: "pylib \<Rightarrow> worksheet \<Rightarrow> nat \<Rightarrow> nat \<Rightarrow> real option" where
  "extract_value_near_cell L worksheet row col =
     (case near_loop L worksheet (search_positions row col) of
        Some val \<Rightarrow> Some val
      | None \<Rightarrow> ray_loop L worksheet row col [1 ..< 11])"


subsection \<open>extract\_project\_data\<close>

text \<open>
  The texts the reader looks for are Russian and English labels. They are parameters of
  the model: the label of the project type, the known project types, the header texts
  that are not a project type, the text used when no type is found, and the synonyms of
  each numeric field. The keys of the numeric fields are taken in the order of the
  source's table.
\<close>

record labels =
  type_label :: string
  type_keywords :: "string list"
  type_stoplist :: "string list"
  type_default :: string
  synonyms :: "string \<Rightarrow> string list"

definition field_keys :: "string list" where
  "field_keys =
     [''capex'', ''construction_years'', ''debt_share'', ''debt_rate'', ''discount_rate'',
      ''npv'', ''irr'', ''payback_period'']"

definition required_fields :: "string list" where
  "required_fields = [''npv'', ''irr'', ''payback_period'']"

text \<open>The dictionary \<open>data\<close>: the project type is a string, every other entry a float.\<close>

datatype dval = DStr string | DNum real

type_synonym data = "string \<rightharpoonup> dval"

text \<open>\<open>key in data and data[key] != 0.0\<close>.\<close>

definition resolved :: "data \<Rightarrow> string \<Rightarrow> bool" where
  "resolved data key = (case data key of None \<Rightarrow> False | Some v \<Rightarrow> v \<noteq> DNum 0)"

text \<open>\<open>field not in data or data[field] == 0.0\<close>.\<close>

definition is_missing :: "data \<Rightarrow> string \<Rightarrow> bool" where
  "is_missing data field = (case data field of None \<Rightarrow> True | Some v \<Rightarrow> v = DNum 0)"

text \<open>
  The loop over the known project types. It returns the last value of
  \<open>project_type_cell\<close> and the dictionary; it stops at the first type whose cell holds
  a non-empty string.
\<close>

fun keyword_loop ::
  "pylib \<Rightarrow> worksheet \<Rightarrow> string list \<Rightarrow> (nat \<times> nat) option \<Rightarrow> data
     \<Rightarrow> (nat \<times> nat) option \<times> data" where
  "keyword_loop L worksheet [] project_type_cell data = (project_type_cell, data)"
| "keyword_loop L worksheet (project_type # rest) project_type_cell data =
     (case find_cell_by_text L worksheet project_type False of
        None \<Rightarrow> keyword_loop L worksheet rest None data
      | Some (row, col) \<Rightarrow>
         (case cell_at worksheet row col of
            StrV s \<Rightarrow>
              if s \<noteq> [] then (Some (row, col), data(''type'' \<mapsto> DStr (str_strip L s)))
              else keyword_loop L worksheet rest (Some (row, col)) data
          | _ \<Rightarrow> keyword_loop L worksheet rest (Some (row, col)) data))"

text \<open>
  The loop over the column offsets 1, 2, -1, -2 beside the type label. A column below 1
  makes \<open>worksheet.cell\<close> raise, and the handler continues with the next offset.
\<close>

fun offset_loop ::
  "pylib \<Rightarrow> labels \<Rightarrow> worksheet \<Rightarrow> nat \<Rightarrow> nat \<Rightarrow> int list \<Rightarrow> string option" where
  "offset_loop L T worksheet row col [] = None"
| "offset_loop L T worksheet row col (offset # rest) =
     (if int col + offset < 1 then offset_loop L T worksheet row col rest
      else (case cell_at worksheet row (nat (int col + offset)) of
              StrV s \<Rightarrow>
                if s \<noteq> [] \<and> length s > 2
                   \<and> str_upper L (str_strip L s) \<notin> set (type_stoplist T)
                then Some (str_strip L s)
                else offset_loop L T worksheet row col rest
            | _ \<Rightarrow> offset_loop L T worksheet row col rest))"

definition resolve_type :: "pylib \<Rightarrow> labels \<Rightarrow> worksheet \<Rightarrow> data \<Rightarrow> data" where
  "resolve_type L T worksheet data =
     (let project_type_cell = find_cell_by_text L worksheet (type_label T) False;
          (project_type_cell, data) =
            (if project_type_cell = None
             then keyword_loop L worksheet (type_keywords T) project_type_cell data
             else (project_type_cell, data));
          data =
            (case project_type_cell of
               None \<Rightarrow> data
             | Some (row, col) \<Rightarrow>
                 if data ''type'' = None
                 then (case offset_loop L T worksheet row col [1, 2, -1, -2] of
                         Some t \<Rightarrow> data(''type'' \<mapsto> DStr t)
                       | None \<Rightarrow> data)
                 else data)
      in if data ''type'' = None then data(''type'' \<mapsto> DStr (type_default T)) else data)"

text \<open>
  The probe of the fixed cells for \<open>irr\<close>. \<open>Hit\<close> stores the value and sets
  \<open>found\<close>; \<open>Miss\<close> goes on; \<open>Raised\<close> is an exception that leaves the whole probe
  through its outer handler (\<open>float\<close> of the matched text, which no handler in between
  catches).
\<close>

datatype probe = Hit real | Miss | Raised

definition probe_primary :: "pylib \<Rightarrow> worksheet \<Rightarrow> probe" where
  "probe_primary L worksheet =
     (let v = cell_at worksheet 15 5
      in if v \<noteq> NoneV
         then (case py_float L v of
                 Some val \<Rightarrow>
                   (let val = (if 0 \<le> val \<and> val < 1 then val * 100 else val)
                    in if 0 \<le> val \<and> val \<le> 100 then Hit val else Miss)
               | None \<Rightarrow>
                   (case v of
                      StrV s \<Rightarrow>
                        (case first_number False (normalize_text s) of
                           Some m \<Rightarrow>
                             (case str_float L m of
                                None \<Rightarrow> Raised
                              | Some val \<Rightarrow>
                                  (let val = (if val < 1 then val * 100 else val)
                                   in if 0 \<le> val \<and> val \<le> 100 then Hit val else Miss))
                         | None \<Rightarrow> Miss)
                    | _ \<Rightarrow> Miss))
         else Miss)"

definition probe_alternative :: "pylib \<Rightarrow> worksheet \<Rightarrow> nat \<Rightarrow> probe" where
  "probe_alternative L worksheet row_num =
     (let v = cell_at worksheet row_num 4
      in if v \<noteq> NoneV
         then (case py_float L v of
                 Some val \<Rightarrow> if 0 \<le> val \<and> val \<le> 100 then Hit val else Miss
               | None \<Rightarrow>
                   (case v of
                      StrV s \<Rightarrow>
                        (case first_number False (normalize_text s) of
                           Some m \<Rightarrow>
                             (case str_float L m of
                                None \<Rightarrow> Raised
                              | Some val \<Rightarrow>
                                  if 0 \<le> val \<and> val \<le> 100 then Hit val else Miss)
                         | None \<Rightarrow> Miss)
                    | _ \<Rightarrow> Miss))
         else Miss)"

fun alternative_loop :: "pylib \<Rightarrow> worksheet \<Rightarrow> nat list \<Rightarrow> probe" where
  "alternative_loop L worksheet [] = Miss"
| "alternative_loop L worksheet (row_num # rest) =
     (case probe_alternative L worksheet row_num of
        Miss \<Rightarrow> alternative_loop L worksheet rest
      | p \<Rightarrow> p)"

text \<open>The value the probe stores under \<open>irr\<close>, if it sets \<open>found\<close>.\<close>

definition irr_probe :: "pylib \<Rightarrow> worksheet \<Rightarrow> real option" where
  "irr_probe L worksheet =
     (case probe_primary L worksheet of
        Hit val \<Rightarrow> Some val
      | Raised \<Rightarrow> None
      | Miss \<Rightarrow>
         (case alternative_loop L worksheet [15, 16] of
            Hit val \<Rightarrow> Some val
          | _ \<Rightarrow> None))"

text \<open>The number read from the located cell itself.\<close>

definition own_value :: "pylib \<Rightarrow> cell_value \<Rightarrow> real option" where
  "own_value L v =
     (if truthy v
      then (case v of
              IntV n \<Rightarrow> Some (of_int n)
            | FloatV x \<Rightarrow> Some x
            | BoolV b \<Rightarrow> Some (if b then 1 else 0)
            | StrV s \<Rightarrow>
                (case first_number True (normalize_text s) of
                   Some m \<Rightarrow> str_float L m
                 | None \<Rightarrow> None)
            | _ \<Rightarrow> None)
      else None)"

fun pattern_loop :: "pylib \<Rightarrow> worksheet \<Rightarrow> string list \<Rightarrow> real option" where
  "pattern_loop L worksheet [] = None"
| "pattern_loop L worksheet (pattern # rest) =
     (case find_cell_by_text L worksheet pattern False of
        None \<Rightarrow> pattern_loop L worksheet rest
      | Some (row, col) \<Rightarrow>
         (case own_value L (cell_at worksheet row col) of
            Some val \<Rightarrow> Some val
          | None \<Rightarrow>
             (case extract_value_near_cell L worksheet row col of
                Some val \<Rightarrow> Some val
              | None \<Rightarrow> pattern_loop L worksheet rest)))"

text \<open>One round of the loop over the keys, on one sheet.\<close>

definition process_key ::
  "pylib \<Rightarrow> labels \<Rightarrow> worksheet \<Rightarrow> bool \<Rightarrow> data \<Rightarrow> string \<Rightarrow> data" where
  "process_key L T worksheet first_sheet data key =
     (if resolved data key then data
      else (case (if key = ''irr'' \<and> first_sheet then irr_probe L worksheet else None) of
              Some val \<Rightarrow> data(key \<mapsto> DNum val)
            | None \<Rightarrow>
               (case pattern_loop L worksheet (synonyms T key) of
                  Some val \<Rightarrow> data(key \<mapsto> DNum val)
                | None \<Rightarrow> if data key = None then data(key \<mapsto> DNum 0) else data)))"

definition process_sheet :: "pylib \<Rightarrow> labels \<Rightarrow> bool \<Rightarrow> worksheet \<Rightarrow> data \<Rightarrow> data" where
  "process_sheet L T first_sheet worksheet data =
     (let data = (if first_sheet then resolve_type L T worksheet data else data)
      in fold (\<lambda>key data. process_key L T worksheet first_sheet data key) field_keys data)"

text \<open>The loop over the sheets of the workbook; sheet names are unique.\<close>

fun scan_sheets :: "pylib \<Rightarrow> labels \<Rightarrow> bool \<Rightarrow> worksheet list \<Rightarrow> data \<Rightarrow> data" where
  "scan_sheets L T first_sheet [] data = data"
| "scan_sheets L T first_sheet (worksheet # rest) data =
     scan_sheets L T False rest (process_sheet L T first_sheet worksheet data)"

text \<open>
  The ValueError of the final check is raised inside the \<open>try\<close> block, so the last
  handler raises a new ValueError whose message carries the first one's.
\<close>

datatype error = Missing_fields "string list" | Processing_error error

definition extract_project_data :: "pylib \<Rightarrow> labels \<Rightarrow> worksheet list \<Rightarrow> error + data" where
  "extract_project_data L T workbook =
     (let data = scan_sheets L T True workbook Map.empty;
          missing_fields = filter (is_missing data) required_fields
      in if missing_fields \<noteq> [] then Inl (Processing_error (Missing_fields missing_fields))
         else Inr data)"


subsection \<open>A library instance for concrete sheets\<close>

text \<open>
  For the evaluation of concrete sheets the library is instantiated on ASCII texts:
  letters \<open>A\<close> to \<open>Z\<close> change case, blanks are stripped, and \<open>float\<close> reads a
  decimal literal (an optional sign, digits, an optional fraction) between blanks. On such
  texts it agrees with the interpreter; \<open>str\<close> of floats and dates is not used by the
  examples.
\<close>

definition ascii_lower_char :: "char \<Rightarrow> char" where
  "ascii_lower_char c =
     (let n = (of_char c :: nat) in if 65 \<le> n \<and> n \<le> 90 then char_of (n + 32) else c)"

definition ascii_upper_char :: "char \<Rightarrow> char" where
  "ascii_upper_char c =
     (let n = (of_char c :: nat) in if 97 \<le> n \<and> n \<le> 122 then char_of (n - 32) else c)"

definition is_blank :: "char \<Rightarrow> bool" where
  "is_blank c = (c \<in> set [CHR '' '', CHR 0x09, CHR 0x0A, CHR 0x0D])"

definition ascii_strip :: "string \<Rightarrow> string" where
  "ascii_strip s = rev (dropWhile is_blank (rev (dropWhile is_blank s)))"

definition digit_value :: "char \<Rightarrow> nat" where
  "digit_value c = of_char c - 48"

definition digits_value :: "string \<Rightarrow> nat" where
  "digits_value s = foldl (\<lambda>a c. 10 * a + digit_value c) 0 s"

definition parse_unsigned :: "string \<Rightarrow> real option" where
  "parse_unsigned s =
     (let ip = takeWhile is_digit s
      in case dropWhile is_digit s of
           [] \<Rightarrow> if ip = [] then None else Some (real (digits_value ip))
         | c # fp \<Rightarrow>
             if c = CHR ''.'' \<and> list_all is_digit fp \<and> \<not> (ip = [] \<and> fp = [])
             then Some (real (digits_value ip) + real (digits_value fp) / 10 ^ length fp)
             else None)"

definition parse_decimal :: "string \<Rightarrow> real option" where
  "parse_decimal s =
     (case s of
        [] \<Rightarrow> None
      | c # cs \<Rightarrow>
          if c = CHR ''-'' then map_option uminus (parse_unsigned cs)
          else if c = CHR ''+'' then parse_unsigned cs
          else parse_unsigned s)"

definition ascii_lib :: pylib where
  "ascii_lib =
     \<lparr> str_lower = map ascii_lower_char,
       str_upper = map ascii_upper_char,
       str_strip = ascii_strip,
       str_other = (\<lambda>v. []),
       str_float = (\<lambda>s. parse_decimal (ascii_strip s)) \<rparr>"

section \<open>Seed of the remote request (processors/ai\_client.py)\<close>














section \<open>The specification's wording\<close>

text \<open>
  The additive rule table of the specification: in each category at most one of two rules
  adds its points.
\<close>

definition rule_points :: "bool \<Rightarrow> int \<Rightarrow> bool \<Rightarrow> int \<Rightarrow> int" where
  "rule_points first p second q = (if first then p else if second then q else 0)"

definition rule_table_sum ::
  "real \<Rightarrow> real \<Rightarrow> real \<Rightarrow> real \<Rightarrow> real \<Rightarrow> real \<Rightarrow> real \<Rightarrow> int" where
  "rule_table_sum npv irr payback debtShare debtRate constructionYears discountRate =
     rule_points (npv < 0) 40 (npv < 50) 20
     + rule_points (irr < discountRate) 30 (irr < 1.1 * discountRate) 15
     + rule_points (payback > 15) 30 (payback > 10) 20
     + rule_points (debtShare > 70) 35 (debtShare > 50) 25
     + rule_points (debtRate > 20) 30 (debtRate > 15) 20
     + rule_points (constructionYears > 7) 25 (constructionYears > 5) 15
     + rule_points (discountRate > 25) 20 (discountRate > 20) 10"

text \<open>The factors of the four independent checks that trigger, in their order.\<close>

definition triggered_factors :: "(string \<rightharpoonup> real) \<Rightarrow> factor list" where
  "triggered_factors d =
     map snd (filter fst
       [(dict_get d ''npv'' 0 < 0, Negative_npv),
        (dict_get d ''irr'' 0 < dict_get d ''discount_rate'' 0, Irr_below_discount),
        (dict_get d ''debt_share'' 0 > 50, High_debt_share),
        (dict_get d ''payback_period'' 0 > 10, Long_payback)])"



text \<open>
  A key of the dictionary holds a number; every numeric key holds a number or is absent.
\<close>

definition numeric_at :: "data \<Rightarrow> string \<Rightarrow> bool" where
  "numeric_at data k = (case data k of Some (DNum x) \<Rightarrow> True | _ \<Rightarrow> False)"

definition numeric_or_absent :: "data \<Rightarrow> bool" where
  "numeric_or_absent data = list_all (\<lambda>k. data k = None \<or> numeric_at data k) field_keys"

section \<open>Concrete sheets and tables\<close>

text \<open>A label table with ASCII labels, for the concrete workbooks below.\<close>

definition example_labels :: labels where
  "example_labels =
     \<lparr> type_label = ''project type'',
       type_keywords = [''metro'', ''road'', ''energy'', ''bridge'', ''tunnel''],
       type_stoplist = [''PROJECT PARAMETERS'', ''PROJECT'', ''TYPE''],
       type_default = ''unspecified'',
       synonyms = (\<lambda>key.
         if key = ''capex'' then [''capex'']
         else if key = ''npv'' then [''npv'']
         else if key = ''irr'' then [''irr'']
         else if key = ''payback_period'' then [''payback'']
         else []) \<rparr>"



text \<open>A label with a number to its right and another number below it.\<close>

definition sheet_right_and_down :: worksheet where
  "sheet_right_and_down = [[StrV ''NPV'', IntV 7], [IntV 9]]"

text \<open>A label whose only neighbour is the text \<open>12,5%\<close> below it.\<close>

definition sheet_down_text :: worksheet where
  "sheet_down_text = [[StrV ''NPV''], [StrV ''12,5%'']]"

text \<open>
  Sheets with labelled NPV and payback values and the IRR given as the fraction 0.3 in
  cell D15, or in cell E15.
\<close>

definition sheet_irr_d15 :: worksheet where
  "sheet_irr_d15 =
     [[StrV ''NPV'', IntV 120], [StrV ''Payback'', IntV 7]] @ replicate 12 []
     @ [[NoneV, NoneV, NoneV, FloatV 0.3]]"

definition sheet_irr_e15 :: worksheet where
  "sheet_irr_e15 =
     [[StrV ''NPV'', IntV 120], [StrV ''Payback'', IntV 7]] @ replicate 12 []
     @ [[NoneV, NoneV, NoneV, NoneV, FloatV 0.3]]"

text \<open>A sheet with the three required values beside their labels and nothing else.\<close>

definition sheet_required_only :: worksheet where
  "sheet_required_only =
     [[StrV ''NPV'', IntV 120], [StrV ''IRR, %'', IntV 18], [StrV ''Payback'', IntV 7]]"

text \<open>The same sheet with an IRR of 0.\<close>

definition sheet_zero_irr :: worksheet where
  "sheet_zero_irr =
     [[StrV ''NPV'', IntV 120], [StrV ''IRR, %'', IntV 0], [StrV ''Payback'', IntV 7]]"





section \<open>Properties of the fallback risk scorer\<close>

lemma rule_points_step:
  "(if a then s + p else if b then s + q else s) = s + rule_points a p b q"
  by (simp add: rule_points_def)

lemma score_is_table:
  "calculate_risk_score npv irr pb ds dr cy disc =
     min 100 (rule_table_sum npv irr pb ds dr cy disc)"
  unfolding calculate_risk_score_def rule_table_sum_def Let_def rule_points_step
  by (simp only: mult.commute add_0)



lemma rule_points_mono:
  "(a \<Longrightarrow> a') \<Longrightarrow> (b \<Longrightarrow> a' \<or> b') \<Longrightarrow> q \<le> p \<Longrightarrow> 0 \<le> q \<Longrightarrow>
     rule_points a p b q \<le> rule_points a' p b' q"
  unfolding rule_points_def by auto


text \<open>
  Claim C6. \<open>score_to_risk_level\<close> is a total step function of the integer score:
  every score up to 30 is Low, every score from 31 to 60 is Medium, every score from 61 to
  85 is High, and every score from 86 on is Critical.
\<close>

theorem score_to_risk_level_steps:
  "(\<forall>s. s \<le> 30 \<longrightarrow> score_to_risk_level s = Low)
   \<and> (\<forall>s. 31 \<le> s \<and> s \<le> 60 \<longrightarrow> score_to_risk_level s = Medium)
   \<and> (\<forall>s. 61 \<le> s \<and> s \<le> 85 \<longrightarrow> score_to_risk_level s = High)
   \<and> (\<forall>s. 86 \<le> s \<longrightarrow> score_to_risk_level s = Critical)"
  by (simp add: score_to_risk_level_def)

text \<open>The eight scores named by the claim, each taken from the theorem.\<close>

theorem score_to_risk_level_steps_witness:
  "score_to_risk_level 0 = Low \<and> score_to_risk_level 30 = Low
   \<and> score_to_risk_level 31 = Medium \<and> score_to_risk_level 60 = Medium
   \<and> score_to_risk_level 61 = High \<and> score_to_risk_level 85 = High
   \<and> score_to_risk_level 86 = Critical \<and> score_to_risk_level 100 = Critical"
  using score_to_risk_level_steps by simp

text \<open>
  Claim C7. With all other inputs fixed, \<open>calculate_risk_score\<close> is monotonically
  non-decreasing in each of the payback period, the debt share, the debt rate, the
  construction years and the discount rate.
\<close>

theorem calculate_risk_score_monotone:
  assumes "x \<le> x'"
  shows "calculate_risk_score npv irr x ds dr cy disc
           \<le> calculate_risk_score npv irr x' ds dr cy disc
    \<and> calculate_risk_score npv irr pb x dr cy disc
           \<le> calculate_risk_score npv irr pb x' dr cy disc
    \<and> calculate_risk_score npv irr pb ds x cy disc
           \<le> calculate_risk_score npv irr pb ds x' cy disc
    \<and> calculate_risk_score npv irr pb ds dr x disc
           \<le> calculate_risk_score npv irr pb ds dr x' disc
    \<and> calculate_risk_score npv irr pb ds dr cy x
           \<le> calculate_risk_score npv irr pb ds dr cy x'"
proof -
  have 1: "rule_points (x > 15) 30 (x > 10) 20 \<le> rule_points (x' > 15) 30 (x' > 10) 20"
    using assms by (intro rule_points_mono) auto
  have 2: "rule_points (x > 70) 35 (x > 50) 25 \<le> rule_points (x' > 70) 35 (x' > 50) 25"
    using assms by (intro rule_points_mono) auto
  have 3: "rule_points (x > 20) 30 (x > 15) 20 \<le> rule_points (x' > 20) 30 (x' > 15) 20"
    using assms by (intro rule_points_mono) auto
  have 4: "rule_points (x > 7) 25 (x > 5) 15 \<le> rule_points (x' > 7) 25 (x' > 5) 15"
    using assms by (intro rule_points_mono) auto
  have 5: "rule_points (x > 25) 20 (x > 20) 10 \<le> rule_points (x' > 25) 20 (x' > 20) 10"
    using assms by (intro rule_points_mono) auto
  have 6: "rule_points (irr < x) 30 (irr < 1.1 * x) 15
             \<le> rule_points (irr < x') 30 (irr < 1.1 * x') 15"
    using assms by (intro rule_points_mono) auto
  have a: "calculate_risk_score npv irr x ds dr cy disc
             \<le> calculate_risk_score npv irr x' ds dr cy disc"
    using 1 unfolding score_is_table rule_table_sum_def by simp
  have b: "calculate_risk_score npv irr pb x dr cy disc
             \<le> calculate_risk_score npv irr pb x' dr cy disc"
    using 2 unfolding score_is_table rule_table_sum_def by simp
  have c: "calculate_risk_score npv irr pb ds x cy disc
             \<le> calculate_risk_score npv irr pb ds x' cy disc"
    using 3 unfolding score_is_table rule_table_sum_def by simp
  have d: "calculate_risk_score npv irr pb ds dr x disc
             \<le> calculate_risk_score npv irr pb ds dr x' disc"
    using 4 unfolding score_is_table rule_table_sum_def by simp
  have e: "calculate_risk_score npv irr pb ds dr cy x
             \<le> calculate_risk_score npv irr pb ds dr cy x'"
    using 5 6 unfolding score_is_table rule_table_sum_def by simp
  from a b c d e show ?thesis by blast
qed

text \<open>Raising the debt share from 40 to 80 takes the score from 20 to 55.\<close>

theorem calculate_risk_score_monotone_witness:
  "(40::real) \<le> 80 \<and> calculate_risk_score 100 15 12 40 10 3 10 = 20
   \<and> calculate_risk_score 100 15 12 80 10 3 10 = 55
   \<and> calculate_risk_score 100 15 12 40 10 3 10 \<le> calculate_risk_score 100 15 12 80 10 3 10"
proof -
  have h: "(40::real) \<le> 80" by simp
  have a: "calculate_risk_score 100 15 12 40 10 3 10 = 20"
    by (simp add: calculate_risk_score_def)
  have b: "calculate_risk_score 100 15 12 80 10 3 10 = 55"
    by (simp add: calculate_risk_score_def)
  from calculate_risk_score_monotone
         [OF h, where npv=100 and irr=15 and pb=12 and dr=10 and cy=3 and disc=10] a b h
  show ?thesis by blast
qed

lemma fallback_factors_triggered: "fallback_factors d = triggered_factors d"
  unfolding fallback_factors_def triggered_factors_def Let_def by simp

text \<open>
  Claim C9. For every input map \<open>calculate_risk_fallback\<close> returns a dictionary whose
  \<open>risk_level\<close> is the level of the computed score, whose \<open>critical_factors\<close> are
  exactly the factors of the four checks that trigger (the placeholder alone when none
  does), whose \<open>scenarios\<close> and \<open>risk_mitigation\<close> are empty lists and whose
  \<open>total_potential_losses\<close> is 0. The keys \<open>business_vision\<close>,
  \<open>estimated_payback\<close> and \<open>business_score\<close> are absent, so a reader that takes the
  vision with the empty text as default gets the empty text.
\<close>

theorem calculate_risk_fallback_shape:
  "calculate_risk_fallback d ''risk_level'' =
      Some (PLevel (score_to_risk_level (calculate_risk_score
        (dict_get d ''npv'' 0) (dict_get d ''irr'' 0) (dict_get d ''payback_period'' 0)
        (dict_get d ''debt_share'' 0) (dict_get d ''debt_rate'' 0)
        (dict_get d ''construction_years'' 0) (dict_get d ''discount_rate'' 0))))
   \<and> calculate_risk_fallback d ''critical_factors'' =
      Some (PList (map PFactor
        (if triggered_factors d = [] then [Detailed_analysis] else triggered_factors d)))
   \<and> calculate_risk_fallback d ''scenarios'' = Some (PList [])
   \<and> calculate_risk_fallback d ''risk_mitigation'' = Some (PList [])
   \<and> calculate_risk_fallback d ''total_potential_losses'' = Some (PInt 0)
   \<and> calculate_risk_fallback d ''business_vision'' = None
   \<and> dict_get (calculate_risk_fallback d) ''business_vision'' (PStr []) = PStr []
   \<and> calculate_risk_fallback d ''estimated_payback'' = None
   \<and> calculate_risk_fallback d ''business_score'' = None
   \<and> dom (calculate_risk_fallback d) =
        {''risk_level'', ''reason'', ''critical_factors'', ''scenarios'',
         ''total_potential_losses'', ''risk_mitigation''}"
  unfolding calculate_risk_fallback_def Let_def fallback_factors_triggered
  by (simp add: dict_get_def dom_map_of_conv_image_fst)

text \<open>
  Two input maps: one where the first two checks trigger, and one where none does.
\<close>

theorem calculate_risk_fallback_shape_witness:
  "calculate_risk_fallback
       (map_of [(''npv'', -10), (''irr'', 5), (''discount_rate'', 10)]) ''critical_factors''
     = Some (PList [PFactor Negative_npv, PFactor Irr_below_discount])
   \<and> calculate_risk_fallback
       (map_of [(''npv'', 200), (''irr'', 15), (''discount_rate'', 10)]) ''critical_factors''
     = Some (PList [PFactor Detailed_analysis])"
  using calculate_risk_fallback_shape
          [of "map_of [(''npv'', -10), (''irr'', 5), (''discount_rate'', 10)]"]
        calculate_risk_fallback_shape
          [of "map_of [(''npv'', 200), (''irr'', 15), (''discount_rate'', 10)]"]
  by (simp add: triggered_factors_def dict_get_def)
section \<open>Properties of the spreadsheet reader\<close>

subsection \<open>The cell locator\<close>

lemma find_in_row_sound:
  "find_in_row L s cs r c vs = Some (r', c') \<Longrightarrow>
     r' = r \<and> c \<le> c' \<and> c' < c + length vs \<and> truthy (vs ! (c' - c))"
proof (induction vs arbitrary: c)
  case Nil
  then show ?case by simp
next
  case (Cons v vs)
  show ?case
  proof (cases "truthy v \<and> contains s (if \<not> cs then str_lower L (py_str L v) else py_str L v)")
    case True
    with Cons.prems show ?thesis by simp
  next
    case False
    with Cons.prems have "find_in_row L s cs r (Suc c) vs = Some (r', c')" by auto
    from Cons.IH [OF this]
    have ih: "r' = r" "Suc c \<le> c'" "c' < Suc c + length vs" "truthy (vs ! (c' - Suc c))"
      by auto
    from ih(2) have "c' - c = Suc (c' - Suc c)" by arith
    with ih show ?thesis by simp
  qed
qed

lemma find_in_rows_sound:
  "find_in_rows L s cs r rows = Some (r', c') \<Longrightarrow>
     r \<le> r' \<and> r' < r + length rows \<and> 1 \<le> c' \<and> c' \<le> length (rows ! (r' - r))
     \<and> truthy (rows ! (r' - r) ! (c' - 1))"
proof (induction rows arbitrary: r)
  case Nil
  then show ?case by simp
next
  case (Cons cells rest)
  show ?case
  proof (cases "find_in_row L s cs r 1 cells")
    case None
    with Cons.prems have "find_in_rows L s cs (Suc r) rest = Some (r', c')" by simp
    from Cons.IH [OF this]
    have ih: "Suc r \<le> r'" "r' < Suc r + length rest" "1 \<le> c'"
      "c' \<le> length (rest ! (r' - Suc r))" "truthy (rest ! (r' - Suc r) ! (c' - 1))"
      by auto
    from ih(1) have "r' - r = Suc (r' - Suc r)" by arith
    with ih show ?thesis by simp
  next
    case (Some pos)
    with Cons.prems have "find_in_row L s cs r 1 cells = Some (r', c')" by simp
    from find_in_row_sound [OF this] show ?thesis by auto
  qed
qed

lemma find_cell_by_text_sound:
  assumes "find_cell_by_text L ws s cs = Some (r, c)"
  shows "1 \<le> r \<and> 1 \<le> c \<and> truthy (cell_at ws r c)"
proof -
  from assms obtain s' where "find_in_rows L s' cs 1 ws = Some (r, c)"
    by (auto simp: find_cell_by_text_def Let_def)
  from find_in_rows_sound [OF this] show ?thesis
    by (auto simp: cell_at_def Let_def)
qed

text \<open>
  Claim C10. \<open>find_cell_by_text\<close> only matches cells whose value is truthy: the
  coordinate it returns never holds the number 0, the empty string, False or nothing. A
  cell holding the integer 0 is skipped before the substring test, so it is not found
  even by a label that occurs in its text \<open>0\<close>.
\<close>

theorem find_cell_by_text_truthy:
  "(find_cell_by_text L ws s cs = Some (r, c) \<longrightarrow>
      truthy (cell_at ws r c)
      \<and> cell_at ws r c \<noteq> IntV 0 \<and> cell_at ws r c \<noteq> FloatV 0
      \<and> cell_at ws r c \<noteq> StrV [] \<and> cell_at ws r c \<noteq> BoolV False
      \<and> cell_at ws r c \<noteq> NoneV)
   \<and> find_cell_by_text L [[IntV 0]] s cs = None
   \<and> contains ''0'' (py_str L (IntV 0))"
proof -
  have a: "truthy (cell_at ws r c)" if "find_cell_by_text L ws s cs = Some (r, c)"
    using find_cell_by_text_sound [OF that] by simp
  have b: "v \<noteq> IntV 0 \<and> v \<noteq> FloatV 0 \<and> v \<noteq> StrV [] \<and> v \<noteq> BoolV False \<and> v \<noteq> NoneV"
    if "truthy v" for v using that by (cases v) auto
  have c: "find_cell_by_text L [[IntV 0]] s cs = None"
    by (simp add: find_cell_by_text_def)
  have d: "contains ''0'' (py_str L (IntV 0))"
    by (simp add: show_int_def digit_char_def)
  from a b c d show ?thesis by blast
qed

text \<open>
  A row with the integer 0 and then the text \<open>a0\<close>: the label \<open>0\<close> is found in the
  second cell, not in the first.
\<close>

theorem find_cell_by_text_truthy_witness:
  "find_cell_by_text ascii_lib [[IntV 0, StrV ''a0'']] ''0'' False = Some (1, 2)
   \<and> truthy (cell_at [[IntV 0, StrV ''a0'']] 1 2)
   \<and> cell_at [[IntV 0, StrV ''a0'']] 1 2 \<noteq> IntV 0"
proof -
  have h: "find_cell_by_text ascii_lib [[IntV 0, StrV ''a0'']] ''0'' False = Some (1, 2)"
    by code_simp
  from find_cell_by_text_truthy [of ascii_lib "[[IntV 0, StrV ''a0'']]" "''0''" False 1 2] h
  show ?thesis by blast
qed

subsection \<open>The proximity search\<close>

lemma near_loop_first:
  "k < length ps \<Longrightarrow> near_value L ws (ps ! k) = Some x \<Longrightarrow>
   (\<forall>j<k. near_value L ws (ps ! j) = None) \<Longrightarrow> near_loop L ws ps = Some x"
proof (induction ps arbitrary: k)
  case Nil
  then show ?case by simp
next
  case (Cons p ps)
  show ?case
  proof (cases k)
    case 0
    with Cons.prems show ?thesis by simp
  next
    case (Suc k')
    with Cons.prems have p: "near_value L ws p = None" by auto
    have "near_loop L ws ps = Some x"
    proof (rule Cons.IH [of k'])
      show "k' < length ps" using Cons.prems Suc by simp
      show "near_value L ws (ps ! k') = Some x" using Cons.prems Suc by simp
      show "\<forall>j<k'. near_value L ws (ps ! j) = None"
      proof (intro allI impI)
        fix j assume "j < k'"
        then have "Suc j < k" using Suc by simp
        with Cons.prems(3) have "near_value L ws ((p # ps) ! Suc j) = None" by blast
        then show "near_value L ws (ps ! j) = None" by simp
      qed
    qed
    with p show ?thesis by simp
  qed
qed


lemma near_value_direct:
  "1 \<le> r \<Longrightarrow> 1 \<le> c \<Longrightarrow> py_float L (cell_at ws r c) = Some x \<Longrightarrow>
     near_value L ws (r, c) = Some x"
  by (cases "cell_at ws r c") (auto simp: near_value_def Let_def)

text \<open>
  Claim C5. \<open>extract_value_near_cell\<close> tests the eight fixed offsets from the label in
  the order right+1, right+2, right+3, down+1, down+1/right+1, down+1/right+2, down+2,
  down+2/right+1 and returns the value of the first candidate that yields a number. In
  particular a number in the right+1 cell is returned whatever number the down+1 cell
  holds.
\<close>

theorem extract_value_near_cell_priority:
  "search_positions row col =
     [(row, col + 1), (row, col + 2), (row, col + 3),
      (row + 1, col), (row + 1, col + 1), (row + 1, col + 2),
      (row + 2, col), (row + 2, col + 1)]
   \<and> (k < 8 \<and> near_value L ws (search_positions row col ! k) = Some x
        \<and> (\<forall>j<k. near_value L ws (search_positions row col ! j) = None)
      \<longrightarrow> extract_value_near_cell L ws row col = Some x)
   \<and> (1 \<le> row \<and> 1 \<le> col \<and> py_float L (cell_at ws row (col + 1)) = Some a
        \<and> py_float L (cell_at ws (row + 1) col) = Some b
      \<longrightarrow> extract_value_near_cell L ws row col = Some a)"
proof -
  have len: "length (search_positions row col) = 8"
    by (simp add: search_positions_def)
  have first: "extract_value_near_cell L ws row col = Some x"
    if "k < 8" "near_value L ws (search_positions row col ! k) = Some x"
      "\<forall>j<k. near_value L ws (search_positions row col ! j) = None" for k x
  proof -
    have "near_loop L ws (search_positions row col) = Some x"
      using that len by (intro near_loop_first [of k]) simp_all
    then show ?thesis by (simp add: extract_value_near_cell_def)
  qed
  have right: "extract_value_near_cell L ws row col = Some a"
    if "1 \<le> row" "1 \<le> col" "py_float L (cell_at ws row (col + 1)) = Some a"
  proof -
    have "near_value L ws (row, col + 1) = Some a"
      using that by (intro near_value_direct) simp_all
    then have "near_value L ws (search_positions row col ! 0) = Some a"
      by (simp add: search_positions_def)
    then show ?thesis by (intro first [of 0]) simp_all
  qed
  have l: "search_positions row col =
     [(row, col + 1), (row, col + 2), (row, col + 3),
      (row + 1, col), (row + 1, col + 1), (row + 1, col + 2),
      (row + 2, col), (row + 2, col + 1)]"
    by (simp add: search_positions_def)
  from first [of k x] right l show ?thesis by blast
qed

text \<open>
  A label with 7 to its right and 9 below it gives 7; a label whose only neighbour is the
  text \<open>12,5%\<close> below it gives 12.5 from the fourth offset.
\<close>

theorem extract_value_near_cell_priority_witness:
  "py_float ascii_lib (cell_at sheet_right_and_down 1 2) = Some 7
   \<and> py_float ascii_lib (cell_at sheet_right_and_down 2 1) = Some 9
   \<and> extract_value_near_cell ascii_lib sheet_right_and_down 1 1 = Some 7
   \<and> near_value ascii_lib sheet_down_text (search_positions 1 1 ! 3) = Some 12.5
   \<and> extract_value_near_cell ascii_lib sheet_down_text 1 1 = Some 12.5"
proof -
  have a: "py_float ascii_lib (cell_at sheet_right_and_down 1 (1 + 1)) = Some 7"
    by (simp add: sheet_right_and_down_def cell_at_def)
  have b: "py_float ascii_lib (cell_at sheet_right_and_down (1 + 1) 1) = Some 9"
    by (simp add: sheet_right_and_down_def cell_at_def)
  have c: "near_value ascii_lib sheet_down_text (search_positions 1 1 ! 3) = Some 12.5"
    by code_simp
  have d: "\<forall>j<3. near_value ascii_lib sheet_down_text (search_positions 1 1 ! j) = None"
  proof (intro allI impI)
    fix j :: nat assume "j < 3"
    then consider "j = 0" | "j = 1" | "j = 2" by linarith
    then show "near_value ascii_lib sheet_down_text (search_positions 1 1 ! j) = None"
    proof cases
      case 1 then show ?thesis by (simp add: search_positions_def near_value_def sheet_down_text_def cell_at_def)
    next
      case 2 then show ?thesis by (simp add: search_positions_def near_value_def sheet_down_text_def cell_at_def)
    next
      case 3 then show ?thesis by (simp add: search_positions_def near_value_def sheet_down_text_def cell_at_def)
    qed
  qed
  have e: "(3::nat) < 8" by simp
  from extract_value_near_cell_priority [of 1 1 0 ascii_lib sheet_right_and_down 7 7 9] a b
  have 1: "extract_value_near_cell ascii_lib sheet_right_and_down 1 1 = Some 7" by simp
  from extract_value_near_cell_priority [of 1 1 3 ascii_lib sheet_down_text "12.5"] c d e
  have 2: "extract_value_near_cell ascii_lib sheet_down_text 1 1 = Some 12.5" by blast
  have a': "py_float ascii_lib (cell_at sheet_right_and_down 1 2) = Some 7"
    by (simp add: sheet_right_and_down_def cell_at_def)
  have b': "py_float ascii_lib (cell_at sheet_right_and_down 2 1) = Some 9"
    by (simp add: sheet_right_and_down_def cell_at_def)
  from a' b' c 1 2 show ?thesis by blast
qed

subsection \<open>The ray search\<close>







subsection \<open>The project data extractor\<close>

text \<open>
  Claim C4 on a concrete sheet. With the IRR given as the fraction 0.3 in the alternative
  cell D15 (E15 empty) the probe stores 0.3 and the extraction returns it unchanged; the
  same value in the primary cell E15 is stored as 30.
\<close>

theorem irr_alternative_cells_not_rescaled:
  "cell_at sheet_irr_d15 15 5 = NoneV
   \<and> cell_at sheet_irr_d15 15 4 = FloatV 0.3
   \<and> irr_probe ascii_lib sheet_irr_d15 = Some 0.3
   \<and> (case extract_project_data ascii_lib example_labels [sheet_irr_d15] of
         Inl e \<Rightarrow> None
       | Inr data \<Rightarrow> data ''irr'') = Some (DNum 0.3)
   \<and> cell_at sheet_irr_e15 15 5 = FloatV 0.3
   \<and> irr_probe ascii_lib sheet_irr_e15 = Some 30"
  by code_simp

lemma keyword_loop_other:
  "k \<noteq> ''type'' \<Longrightarrow> snd (keyword_loop L ws ks pc data) k = data k"
  by (induction ks arbitrary: pc)
     (auto split: option.splits cell_value.splits prod.splits)

lemma resolve_type_other:
  assumes "k \<noteq> ''type''"
  shows "resolve_type L T ws data k = data k"
proof -
  obtain pc d where kl: "keyword_loop L ws (type_keywords T) None data = (pc, d)"
    by (cases "keyword_loop L ws (type_keywords T) None data")
  then have "d k = data k"
    using keyword_loop_other [OF assms, of L ws "type_keywords T" None data] by simp
  then show ?thesis
    using assms kl unfolding resolve_type_def Let_def
    by (auto split: option.splits prod.splits)
qed

lemma process_key_other:
  "k \<noteq> key \<Longrightarrow> process_key L T ws first data key k = data k"
  by (auto simp: process_key_def split: option.splits)

lemma process_key_self:
  "data key = None \<or> numeric_at data key \<Longrightarrow>
     numeric_at (process_key L T ws first data key) key"
  by (auto simp: process_key_def numeric_at_def resolved_def
      split: option.splits dval.splits if_splits)

lemma process_key_keeps:
  assumes "data key = None \<or> numeric_at data key" "numeric_at data k"
  shows "numeric_at (process_key L T ws first data key) k"
proof (cases "k = key")
  case True
  with process_key_self [OF assms(1)] show ?thesis by simp
next
  case False
  with assms(2) show ?thesis by (simp add: numeric_at_def process_key_other)
qed

lemma process_key_invariant:
  assumes "numeric_or_absent data" "key \<in> set field_keys"
  shows "numeric_or_absent (process_key L T ws first data key)"
proof -
  have "process_key L T ws first data key k = None
        \<or> numeric_at (process_key L T ws first data key) k"
    if k: "k \<in> set field_keys" for k
  proof -
    from assms(1) k have a: "data k = None \<or> numeric_at data k"
      by (simp add: numeric_or_absent_def list_all_iff)
    from assms have b: "data key = None \<or> numeric_at data key"
      by (simp add: numeric_or_absent_def list_all_iff)
    show ?thesis
    proof (cases "k = key")
      case True
      with process_key_self [OF b] show ?thesis by simp
    next
      case False
      with a show ?thesis by (simp add: numeric_at_def process_key_other)
    qed
  qed
  then show ?thesis by (simp add: numeric_or_absent_def list_all_iff)
qed

lemma fold_keys:
  assumes "set ks \<subseteq> set field_keys" "numeric_or_absent data"
  shows "numeric_or_absent (fold (\<lambda>key data. process_key L T ws first data key) ks data)
    \<and> (\<forall>k. k \<in> set ks \<or> numeric_at data k \<longrightarrow>
          numeric_at (fold (\<lambda>key data. process_key L T ws first data key) ks data) k)"
  using assms
proof (induction ks arbitrary: data)
  case Nil
  then show ?case by simp
next
  case (Cons key ks)
  let ?d = "process_key L T ws first data key"
  from Cons.prems have key: "key \<in> set field_keys" and ks: "set ks \<subseteq> set field_keys"
    by auto
  from Cons.prems(2) key have b: "data key = None \<or> numeric_at data key"
    by (simp add: numeric_or_absent_def list_all_iff)
  have inv: "numeric_or_absent ?d"
    by (rule process_key_invariant [OF Cons.prems(2) key])
  note ih = Cons.IH [OF ks inv]
  have "numeric_at (fold (\<lambda>key data. process_key L T ws first data key) ks ?d) k"
    if "k \<in> set (key # ks) \<or> numeric_at data k" for k
  proof -
    from that consider "k = key" | "k \<in> set ks" | "numeric_at data k" by auto
    then have "k \<in> set ks \<or> numeric_at ?d k"
    proof cases
      case 1
      with process_key_self [OF b] show ?thesis by simp
    next
      case 2
      then show ?thesis by simp
    next
      case 3
      with process_key_keeps [OF b] show ?thesis by simp
    qed
    with ih show ?thesis by blast
  qed
  with ih show ?case by simp
qed

lemma resolve_type_invariant:
  "numeric_or_absent data \<Longrightarrow> numeric_or_absent (resolve_type L T ws data)"
  "numeric_at data k \<Longrightarrow> k \<noteq> ''type'' \<Longrightarrow> numeric_at (resolve_type L T ws data) k"
  by (simp_all add: numeric_or_absent_def numeric_at_def list_all_iff field_keys_def
        resolve_type_other)

lemma process_sheet_invariant:
  assumes "numeric_or_absent data"
  shows "numeric_or_absent (process_sheet L T first ws data)
    \<and> (\<forall>k \<in> set field_keys. numeric_at (process_sheet L T first ws data) k)"
proof -
  let ?d = "if first then resolve_type L T ws data else data"
  have inv: "numeric_or_absent ?d"
    using assms by (simp add: resolve_type_invariant)
  from fold_keys [OF subset_refl inv, of L T ws first]
  show ?thesis by (simp add: process_sheet_def Let_def)
qed

lemma scan_sheets_keeps:
  assumes "numeric_or_absent data" "\<forall>k \<in> set field_keys. numeric_at data k"
  shows "\<forall>k \<in> set field_keys. numeric_at (scan_sheets L T first wb data) k"
  using assms
proof (induction wb arbitrary: data first)
  case Nil
  then show ?case by simp
next
  case (Cons ws wb)
  from process_sheet_invariant [OF Cons.prems(1), of L T first ws]
  show ?case by (simp add: Cons.IH)
qed

lemma scan_sheets_numeric:
  assumes "workbook \<noteq> []"
  shows "\<forall>k \<in> set field_keys.
           numeric_at (scan_sheets L T True workbook Map.empty) k"
proof -
  from assms obtain ws wb where w: "workbook = ws # wb" by (cases workbook) auto
  have e: "numeric_or_absent Map.empty"
    by (simp add: numeric_or_absent_def list_all_iff)
  from process_sheet_invariant [OF e, of L T True ws]
  show ?thesis unfolding w by (simp add: scan_sheets_keeps)
qed

text \<open>
  Claim C2. For every workbook the extraction fails if and only if, after all sheets are
  scanned, one of \<open>npv\<close>, \<open>irr\<close>, \<open>payback_period\<close> is absent or exactly 0; the
  error names exactly those fields. When the three are resolved to non-zero values the
  scanned dictionary is returned, whatever the other numeric fields hold. After the scan
  of a workbook with at least one sheet every numeric field holds a number, so a field is
  absent only when there is no sheet.
\<close>

theorem extract_project_data_fails_iff_required_missing:
  assumes "data = scan_sheets L T True workbook Map.empty"
  shows "isl (extract_project_data L T workbook)
           = (is_missing data ''npv'' \<or> is_missing data ''irr''
              \<or> is_missing data ''payback_period'')
    \<and> is_missing data field = (data field = None \<or> data field = Some (DNum 0))
    \<and> (isl (extract_project_data L T workbook) \<longrightarrow>
          extract_project_data L T workbook =
            Inl (Processing_error (Missing_fields
              (filter (is_missing data) [''npv'', ''irr'', ''payback_period'']))))
    \<and> (\<not> isl (extract_project_data L T workbook) \<longrightarrow>
          extract_project_data L T workbook = Inr data)
    \<and> (workbook \<noteq> [] \<longrightarrow> (\<forall>k \<in> set field_keys. \<exists>x. data k = Some (DNum x)))"
proof -
  have m: "is_missing data field = (data field = None \<or> data field = Some (DNum 0))"
    by (simp add: is_missing_def split: option.splits)
  have e: "extract_project_data L T workbook =
      (if is_missing data ''npv'' \<or> is_missing data ''irr'' \<or> is_missing data ''payback_period''
       then Inl (Processing_error (Missing_fields
              (filter (is_missing data) [''npv'', ''irr'', ''payback_period''])))
       else Inr data)"
    unfolding extract_project_data_def required_fields_def Let_def assms by simp
  have n: "\<forall>k \<in> set field_keys. \<exists>x. data k = Some (DNum x)" if "workbook \<noteq> []"
  proof
    fix k assume "k \<in> set field_keys"
    with scan_sheets_numeric [OF that, of L T] have "numeric_at data k"
      unfolding assms by blast
    then show "\<exists>x. data k = Some (DNum x)"
      by (auto simp: numeric_at_def split: option.splits dval.splits)
  qed
  have r: "isl (extract_project_data L T workbook)
           = (is_missing data ''npv'' \<or> is_missing data ''irr''
              \<or> is_missing data ''payback_period'')
    \<and> (isl (extract_project_data L T workbook) \<longrightarrow>
          extract_project_data L T workbook =
            Inl (Processing_error (Missing_fields
              (filter (is_missing data) [''npv'', ''irr'', ''payback_period'']))))
    \<and> (\<not> isl (extract_project_data L T workbook) \<longrightarrow>
          extract_project_data L T workbook = Inr data)"
    unfolding e by simp
  from r m n show ?thesis by blast
qed

lemma scan_required_only:
  "map (scan_sheets ascii_lib example_labels True [sheet_required_only] Map.empty) field_keys
     = [Some (DNum 0), Some (DNum 0), Some (DNum 0), Some (DNum 0), Some (DNum 0),
        Some (DNum 120), Some (DNum 18), Some (DNum 7)]"
  by code_simp

lemma scan_zero_irr:
  "map (scan_sheets ascii_lib example_labels True [sheet_zero_irr] Map.empty) field_keys
     = [Some (DNum 0), Some (DNum 0), Some (DNum 0), Some (DNum 0), Some (DNum 0),
        Some (DNum 120), Some (DNum 0), Some (DNum 7)]"
  by code_simp

text \<open>
  Three workbooks: one sheet with only the three required values, where the extraction
  succeeds although the five other fields are 0; the same sheet with an IRR of 0, where it
  fails naming \<open>irr\<close>; and no sheet at all, where the three fields are absent.
\<close>

theorem extract_project_data_fails_iff_required_missing_witness:
  "extract_project_data ascii_lib example_labels [sheet_required_only]
     = Inr (scan_sheets ascii_lib example_labels True [sheet_required_only] Map.empty)
   \<and> map (scan_sheets ascii_lib example_labels True [sheet_required_only] Map.empty)
        [''capex'', ''construction_years'', ''debt_share'', ''debt_rate'', ''discount_rate'']
     = [Some (DNum 0), Some (DNum 0), Some (DNum 0), Some (DNum 0), Some (DNum 0)]
   \<and> extract_project_data ascii_lib example_labels [sheet_zero_irr]
     = Inl (Processing_error (Missing_fields [''irr'']))
   \<and> extract_project_data ascii_lib example_labels []
     = Inl (Processing_error (Missing_fields [''npv'', ''irr'', ''payback_period'']))"
proof -
  let ?d = "scan_sheets ascii_lib example_labels True [sheet_required_only] Map.empty"
  let ?z = "scan_sheets ascii_lib example_labels True [sheet_zero_irr] Map.empty"
  let ?e = "scan_sheets ascii_lib example_labels True [] Map.empty"
  from scan_required_only have d:
    "?d ''capex'' = Some (DNum 0)" "?d ''construction_years'' = Some (DNum 0)"
    "?d ''debt_share'' = Some (DNum 0)" "?d ''debt_rate'' = Some (DNum 0)"
    "?d ''discount_rate'' = Some (DNum 0)" "?d ''npv'' = Some (DNum 120)"
    "?d ''irr'' = Some (DNum 18)" "?d ''payback_period'' = Some (DNum 7)"
    by (simp_all add: field_keys_def)
  from scan_zero_irr have z:
    "?z ''npv'' = Some (DNum 120)" "?z ''irr'' = Some (DNum 0)"
    "?z ''payback_period'' = Some (DNum 7)"
    by (simp_all add: field_keys_def)
  have 1: "extract_project_data ascii_lib example_labels [sheet_required_only] = Inr ?d"
    using extract_project_data_fails_iff_required_missing
            [of ?d ascii_lib example_labels "[sheet_required_only]" "''npv''"] d
    by (simp add: is_missing_def)
  have 2: "extract_project_data ascii_lib example_labels [sheet_zero_irr]
             = Inl (Processing_error (Missing_fields [''irr'']))"
    using extract_project_data_fails_iff_required_missing
            [of ?z ascii_lib example_labels "[sheet_zero_irr]" "''npv''"] z
    by (simp add: is_missing_def)
  have 3: "extract_project_data ascii_lib example_labels []
             = Inl (Processing_error (Missing_fields [''npv'', ''irr'', ''payback_period'']))"
    using extract_project_data_fails_iff_required_missing
            [of ?e ascii_lib example_labels "[]" "''npv''"]
    by (simp add: is_missing_def)
  from 1 2 3 d show ?thesis by simp
qed
section \<open>Properties of the request seed\<close>









end
